theory Spec2Isabelle
  imports Complex_Main
begin

section \<open>Python values\<close>

text \<open>
  Exceptions are values. Only instances of \<open>Exception\<close> are modelled: these are what
  the handlers of the program (\<open>except Exception\<close>) are written for.
\<close>

datatype py_exn =
    KeyError string
  | ZeroDivisionError
  | SMTPAuthenticationError
  | TimeoutExpired
  | OtherException string

text \<open>Truth value of an optional string: \<open>None\<close> and the empty string are false.\<close>

definition truthy :: "string option \<Rightarrow> bool" where
  "truthy v = (case v of None \<Rightarrow> False | Some s \<Rightarrow> s \<noteq> [])"

text \<open>\<open>a or b\<close> on optional strings.\<close>

definition py_or :: "string option \<Rightarrow> string option \<Rightarrow> string option" where
  "py_or a b = (if truthy a then a else b)"

text \<open>\<open>str.lower\<close>, \<open>str.upper\<close> and \<open>str.capitalize\<close> on ASCII letters.\<close>

definition lower_char :: "char \<Rightarrow> char" where
  "lower_char c =
     (let n = (of_char c :: nat) in
      if 65 \<le> n \<and> n \<le> 90
      then (case c of Char b0 b1 b2 b3 b4 b5 b6 b7 \<Rightarrow> Char b0 b1 b2 b3 b4 True b6 b7)
      else c)"

definition upper_char :: "char \<Rightarrow> char" where
  "upper_char c =
     (let n = (of_char c :: nat) in
      if 97 \<le> n \<and> n \<le> 122
      then (case c of Char b0 b1 b2 b3 b4 b5 b6 b7 \<Rightarrow> Char b0 b1 b2 b3 b4 False b6 b7)
      else c)"

definition lower :: "string \<Rightarrow> string" where
  "lower s = map lower_char s"

definition upper :: "string \<Rightarrow> string" where
  "upper s = map upper_char s"

definition capitalize :: "string \<Rightarrow> string" where
  "capitalize s = (case s of [] \<Rightarrow> [] | c # cs \<Rightarrow> upper_char c # map lower_char cs)"

text \<open>\<open>int(x)\<close> on a float truncates toward zero.\<close>

definition py_int :: "real \<Rightarrow> int" where
  "py_int x = (if x \<ge> 0 then \<lfloor>x\<rfloor> else \<lceil>x\<rceil>)"

text \<open>
  The arithmetic of the rescaling is not the program's own: \<open>/\<close> on two ints is
  Python's float division, and the product of a box coordinate (an element of a
  single-precision tensor of the detection library) with a float is the library's. Both
  round, so they are parameters of the loop: \<open>truediv\<close> is used with a non-zero
  divisor only.
\<close>

record arith =
  truediv :: "nat \<Rightarrow> nat \<Rightarrow> real"
  tensor_mul :: "real \<Rightarrow> real \<Rightarrow> real"

text \<open>
  Rounding to the nearest number with \<open>p\<close> significant bits, ties to even. The
  exponent is not bounded above, and magnitudes below \<open>2 ^ -160\<close> become zero.
\<close>

definition round_half_even :: "real \<Rightarrow> int" where
  "round_half_even x =
     (let f = \<lfloor>x\<rfloor>; d = x - of_int f
      in if d < 1 / 2 then f else if 1 / 2 < d then f + 1 else if even f then f else f + 1)"

definition pow2 :: "int \<Rightarrow> real" where
  "pow2 e = (if 0 \<le> e then 2 ^ nat e else 1 / 2 ^ nat (- e))"

fun bits :: "nat \<Rightarrow> nat" where
  "bits n = (if n = 0 then 0 else Suc (bits (n div 2)))"

declare bits.simps [simp del]

definition fl :: "nat \<Rightarrow> real \<Rightarrow> real" where
  "fl p x =
     (let n = bits (nat \<lfloor>\<bar>x\<bar> * 2 ^ 160\<rfloor>)
      in if n = 0 then 0
         else (let ulp = pow2 (int n - 160 - int p)
               in of_int (round_half_even (x / ulp)) * ulp))"

text \<open>
  Binary floating point: the quotient rounded to double precision, and the product of a
  single-precision coordinate with the float converted to single precision, rounded to
  single precision.
\<close>

definition ieee :: arith where
  "ieee = \<lparr>truediv = (\<lambda>a b. fl 53 (real a / real b)),
            tensor_mul = (\<lambda>x q. fl 24 (x * fl 24 q))\<rparr>"

section \<open>The persistence sink (database.py)\<close>

text \<open>
  The two tables the detection loop appends to. Row ids and timestamps are assigned by
  SQLite and are left out. An insertion either commits one row or raises (on connecting,
  executing or committing) and leaves the table as it was; which of the two happens is
  the argument \<open>failure\<close>.
\<close>

record detection_record =
  det_user_id :: int
  det_animal_type :: string
  det_location :: "string option"

record alert_record =
  alert_user_id :: int
  alert_message :: string
  alert_type :: string

record database =
  detections :: "detection_record list"
  alerts :: "alert_record list"

definition add_detection ::
  "py_exn option \<Rightarrow> int \<Rightarrow> string \<Rightarrow> string option \<Rightarrow> database \<Rightarrow> py_exn + database" where
  "add_detection failure user_id animal_type location d =
     (case failure of
        Some e \<Rightarrow> Inl e
      | None \<Rightarrow>
          Inr (d\<lparr>detections := detections d @
                 [\<lparr>det_user_id = user_id, det_animal_type = animal_type,
                   det_location = location\<rparr>]\<rparr>))"

definition add_alert ::
  "py_exn option \<Rightarrow> int \<Rightarrow> string \<Rightarrow> string \<Rightarrow> database \<Rightarrow> py_exn + database" where
  "add_alert failure user_id message_text kind d =
     (case failure of
        Some e \<Rightarrow> Inl e
      | None \<Rightarrow>
          Inr (d\<lparr>alerts := alerts d @
                 [\<lparr>alert_user_id = user_id, alert_message = message_text,
                   alert_type = kind\<rparr>]\<rparr>))"

section \<open>Side effects of the alert channels\<close>

record message =
  msg_from :: "string option"
  msg_reply_to :: "string option"
  msg_to :: string
  msg_subject :: string
  msg_animal :: string
  msg_confidence :: real
  msg_time :: string
  msg_attachments :: "string list"

datatype effect =
    Print string
  | SmtpConnect string int
  | StartTls
  | Login string string
  | SendMessage message
  | SmtpQuit
  | PlayFile string
  | FfPlay string
  | Beep int int

section \<open>Configuration surface (config.py)\<close>

text \<open>
  The configuration dictionaries are read with \<open>dict.get(key, default)\<close>, so every key
  may be absent: each field is an option, \<open>None\<close> standing for a missing key.
  Python floats and ints used as times, confidences and coordinates are modelled as
  \<open>real\<close>; comparisons are exact, rounding of float arithmetic is not modelled.
\<close>

record detection_config =
  confidence_threshold :: "real option"
  alert_cooldown :: "real option"
  frame_width :: "int option"
  frame_height :: "int option"
  save_detection_images :: "bool option"
  detections_folder :: "string option"

definition dict_get :: "'a option \<Rightarrow> 'a \<Rightarrow> 'a" where
  "dict_get v dflt = (case v of None \<Rightarrow> dflt | Some x \<Rightarrow> x)"

definition DETECTION_CONFIG :: detection_config where
  "DETECTION_CONFIG =
     \<lparr>confidence_threshold = Some 0.5, alert_cooldown = Some 60,
      frame_width = Some 640, frame_height = Some 480,
      save_detection_images = Some True, detections_folder = Some ''detections''\<rparr>"

record email_config =
  enabled :: "bool option"
  smtp_server :: "string option"
  smtp_port :: "int option"
  sender_email :: "string option"
  sender_password :: "string option"
  recipient_email :: "string option"
  override_sender :: "string option"

record sound_config =
  sound_enabled :: "bool option"
  beep_frequency :: "int option"
  beep_duration :: "int option"
  beep_count :: "int option"

record database_config =
  user_id :: "int option"

definition EMAIL_CONFIG :: email_config where
  "EMAIL_CONFIG =
     \<lparr>enabled = Some True, smtp_server = Some ''smtp.gmail.com'', smtp_port = Some 587,
      sender_email = Some ''your_gmail@gmail.com'', sender_password = Some ''yourpassword'',
      recipient_email = Some ''receiver email@gmail.com'', override_sender = None\<rparr>"

definition TARGET_ANIMALS :: "string list" where
  "TARGET_ANIMALS =
     [''bird'', ''cat'', ''dog'', ''horse'', ''sheep'', ''cow'',
      ''elephant'', ''bear'', ''zebra'', ''giraffe'']"

definition SOUND_CONFIG :: sound_config where
  "SOUND_CONFIG =
     \<lparr>sound_enabled = Some True, beep_frequency = Some 1000, beep_duration = Some 500,
      beep_count = Some 3\<rparr>"

definition DATABASE_CONFIG :: database_config where
  "DATABASE_CONFIG = \<lparr>user_id = Some 1\<rparr>"

text \<open>
  detection.py, module level: the environment variables \<open>DETECTION_SENDER_EMAIL\<close> and
  \<open>DETECTION_RECIPIENT_EMAIL\<close>, when set and not empty, override the From header and
  the recipient.
\<close>

definition env_overrides :: "string option \<Rightarrow> string option \<Rightarrow> email_config \<Rightarrow> email_config" where
  "env_overrides env_sender env_recipient ecfg =
     (let c1 = (if truthy env_sender then ecfg\<lparr>override_sender := env_sender\<rparr> else ecfg)
      in if truthy env_recipient then c1\<lparr>recipient_email := env_recipient\<rparr> else c1)"

text \<open>The configuration the detection process runs with.\<close>

record config =
  email_cfg :: email_config
  detection_cfg :: detection_config
  target_animals :: "string list"
  sound_cfg :: sound_config
  database_cfg :: database_config

definition default_config :: config where
  "default_config =
     \<lparr>email_cfg = EMAIL_CONFIG, detection_cfg = DETECTION_CONFIG,
      target_animals = TARGET_ANIMALS, sound_cfg = SOUND_CONFIG,
      database_cfg = DATABASE_CONFIG\<rparr>"

section \<open>The cooldown gate (detection.py, should\_send\_alert)\<close>

text \<open>
  \<open>last_alert_time\<close> is the module-level dictionary from animal label to the time of
  its last alert. The reading of \<open>time.time()\<close> is the argument \<open>current_time\<close>; the
  updated dictionary is returned beside the result.
\<close>

type_synonym cooldown_state = "string \<rightharpoonup> real"

definition should_send_alert ::
  "detection_config \<Rightarrow> real \<Rightarrow> string \<Rightarrow> cooldown_state \<Rightarrow> bool \<times> cooldown_state" where
  "should_send_alert dcfg current_time animal_type last_alert_time =
     (let cooldown = dict_get (alert_cooldown dcfg) 60 in
      case last_alert_time animal_type of
        None \<Rightarrow> (True, last_alert_time(animal_type \<mapsto> current_time))
      | Some last_time \<Rightarrow>
          if current_time - last_time \<ge> cooldown
          then (True, last_alert_time(animal_type \<mapsto> current_time))
          else (False, last_alert_time))"

text \<open>A sequence of calls of the gate, each with its label and its clock reading.\<close>

fun gate_calls ::
  "detection_config \<Rightarrow> (string \<times> real) list \<Rightarrow> cooldown_state \<Rightarrow> bool list \<times> cooldown_state" where
  "gate_calls dcfg [] m = ([], m)"
| "gate_calls dcfg ((l, t) # cs) m =
     (let r = should_send_alert dcfg t l m;
          rest = gate_calls dcfg cs (snd r)
      in (fst r # fst rest, snd rest))"

section \<open>The notification channel (detection.py, send\_email\_alert)\<close>

text \<open>
  What the outside world answers to one call: the formatted clock, whether the image file
  exists and can be read, and for each SMTP step the exception it raises, if any.
  \<open>smtp_quit\<close> is the exit of the \<open>with\<close> block.
\<close>

record email_env =
  clock_text :: string
  image_exists :: bool
  image_read :: "py_exn option"
  smtp_connect :: "py_exn option"
  smtp_starttls :: "py_exn option"
  smtp_login :: "py_exn option"
  smtp_send :: "py_exn option"
  smtp_quit :: "py_exn option"

text \<open>The body of the \<open>with smtplib.SMTP(...) as server\<close> block, then its exit.\<close>

definition smtp_session ::
  "email_config \<Rightarrow> email_env \<Rightarrow> message \<Rightarrow> (py_exn + unit) \<times> effect list" where
  "smtp_session ecfg env msg =
     (let body =
        (case smtp_starttls env of
           Some e \<Rightarrow> (Inl e, [StartTls])
         | None \<Rightarrow>
            (case sender_email ecfg of
               None \<Rightarrow> (Inl (KeyError ''sender_email''), [StartTls])
             | Some user \<Rightarrow>
                (case sender_password ecfg of
                   None \<Rightarrow> (Inl (KeyError ''sender_password''), [StartTls])
                 | Some pw \<Rightarrow>
                    (case smtp_login env of
                       Some e \<Rightarrow> (Inl e, [StartTls, Login user pw])
                     | None \<Rightarrow>
                        (case smtp_send env of
                           Some e \<Rightarrow> (Inl e, [StartTls, Login user pw, SendMessage msg])
                         | None \<Rightarrow> (Inr (), [StartTls, Login user pw, SendMessage msg]))))))
      in case smtp_quit env of
           Some e \<Rightarrow> (Inl e, snd body @ [SmtpQuit])
         | None \<Rightarrow> (fst body, snd body @ [SmtpQuit]))"

text \<open>The body of the \<open>try\<close> block: compose the message, attach the image, send.\<close>

definition email_try_body ::
  "email_config \<Rightarrow> email_env \<Rightarrow> string \<Rightarrow> real \<Rightarrow> string option \<Rightarrow>
   (py_exn + unit) \<times> effect list" where
  "email_try_body ecfg env animal_type confidence image_path =
     (let from_header = py_or (override_sender ecfg) (sender_email ecfg);
          reply_to = (if truthy (override_sender ecfg) then override_sender ecfg else None)
      in case recipient_email ecfg of
           None \<Rightarrow> (Inl (KeyError ''recipient_email''), [])
         | Some rcpt \<Rightarrow>
            (let attach = (truthy image_path \<and> image_exists env);
                 attached = (if attach \<and> image_read env = None
                             then [dict_get image_path []] else []);
                 attach_log = (if attach \<and> image_read env \<noteq> None
                               then [Print ''Could not attach image''] else []);
                 msg = \<lparr>msg_from = from_header, msg_reply_to = reply_to, msg_to = rcpt,
                        msg_subject = ''ALERT: '' @ upper animal_type @ '' Detected!'',
                        msg_animal = capitalize animal_type, msg_confidence = confidence,
                        msg_time = clock_text env, msg_attachments = attached\<rparr>
             in case smtp_server ecfg of
                  None \<Rightarrow> (Inl (KeyError ''smtp_server''), attach_log)
                | Some server \<Rightarrow>
                   (case smtp_port ecfg of
                      None \<Rightarrow> (Inl (KeyError ''smtp_port''), attach_log)
                    | Some port \<Rightarrow>
                       (case smtp_connect env of
                          Some e \<Rightarrow> (Inl e, attach_log @ [SmtpConnect server port])
                        | None \<Rightarrow>
                           (let session = smtp_session ecfg env msg
                            in (fst session,
                                attach_log @ [SmtpConnect server port] @ snd session))))))"

text \<open>
  The whole function: the two guards, the \<open>try\<close> block and its two handlers. The
  result is \<open>Inl e\<close> when the exception \<open>e\<close> leaves the function.
\<close>

definition send_email_alert ::
  "email_config \<Rightarrow> email_env \<Rightarrow> string \<Rightarrow> real \<Rightarrow> string option \<Rightarrow>
   (py_exn + bool) \<times> effect list" where
  "send_email_alert ecfg env animal_type confidence image_path =
     (if \<not> dict_get (enabled ecfg) False then (Inr False, [])
      else if \<not> truthy (sender_email ecfg) \<or> \<not> truthy (sender_password ecfg)
      then (Inr False, [Print ''Email not configured. Skipping email alert.''])
      else
        (case email_try_body ecfg env animal_type confidence image_path of
           (Inr u, trace) \<Rightarrow>
             (Inr True, trace @ [Print (''Email alert sent successfully for '' @ animal_type)])
         | (Inl SMTPAuthenticationError, trace) \<Rightarrow>
             (Inr False, trace @ [Print ''Email authentication failed.''])
         | (Inl e, trace) \<Rightarrow>
             (Inr False, trace @ [Print ''Failed to send email''])))"

section \<open>The sound channel (detection.py, play\_sound\_alert)\<close>

definition ANIMAL_SOUNDS :: "string \<rightharpoonup> string" where
  "ANIMAL_SOUNDS =
     [''cat'' \<mapsto> ''sound/cat.mp3'', ''cow'' \<mapsto> ''sound/cow.mp3'',
      ''lion'' \<mapsto> ''sound/lion.mp3'']"

record sound_env =
  sound_file_exists :: bool
  popen_fails :: bool
  ffplay_fails :: bool
  winsound_missing :: bool
  beep_fails :: bool

definition load_sound_file :: "sound_env \<Rightarrow> string \<Rightarrow> string option" where
  "load_sound_file env animal_type =
     (let sound_file = ANIMAL_SOUNDS (lower animal_type)
      in if truthy sound_file \<and> sound_file_exists env then sound_file else None)"

definition beep_fallback :: "sound_config \<Rightarrow> sound_env \<Rightarrow> effect list" where
  "beep_fallback scfg env =
     (if winsound_missing env then [Print ''Sound alert not available on this platform'']
      else if beep_fails env then [Print ''Sound alert error'']
      else replicate (nat (dict_get (beep_count scfg) 3))
             (Beep (dict_get (beep_frequency scfg) 1000) (dict_get (beep_duration scfg) 500))
           @ [Print ''Sound alert played (beep)''])"

definition play_sound_alert :: "sound_config \<Rightarrow> sound_env \<Rightarrow> string option \<Rightarrow> effect list" where
  "play_sound_alert scfg env animal_type =
     (if \<not> dict_get (sound_enabled scfg) True then []
      else if truthy animal_type then
        (case load_sound_file env (dict_get animal_type []) of
           None \<Rightarrow> beep_fallback scfg env
         | Some sound_file \<Rightarrow>
             if \<not> popen_fails env
             then [PlayFile sound_file, Print ''Playing sound alert'']
             else if \<not> ffplay_fails env
             then [FfPlay sound_file, Print ''Playing sound alert'']
             else Print ''Could not play sound file, falling back to beep''
                  # beep_fallback scfg env)
      else beep_fallback scfg env)"

section \<open>The detection loop (detection.py, main)\<close>

text \<open>
  What the outside world answers while one box is processed: the clock read by the gate,
  the outcome of saving the image, the answers to the two channel threads and to the two
  database insertions.
\<close>

record box_env =
  now :: real
  image_save :: "py_exn option"
  timestamp :: string
  sound_world :: sound_env
  email_world :: email_env
  detection_write :: "py_exn option"
  alert_write :: "py_exn option"

text \<open>\<open>os.path.join\<close> of two components, with \<open>/\<close> as the separator.\<close>

definition path_join :: "string \<Rightarrow> string \<Rightarrow> string" where
  "path_join a b =
     (if b \<noteq> [] \<and> hd b = CHR ''/'' then b
      else if a = [] \<or> last a = CHR ''/'' then a @ b
      else a @ ''/'' @ b)"

definition save_detection_image :: "detection_config \<Rightarrow> box_env \<Rightarrow> string \<Rightarrow> string option" where
  "save_detection_image dcfg env animal_type =
     (if \<not> dict_get (save_detection_images dcfg) True then None
      else case image_save env of
             Some e \<Rightarrow> None
           | None \<Rightarrow>
               Some (path_join (dict_get (detections_folder dcfg) ''detections'')
                       (''detection_'' @ animal_type @ ''_'' @ timestamp env @ ''.jpg'')))"

text \<open>
  A box of the classifier's result: class index, confidence and corner coordinates in the
  resized frame. \<open>names\<close> is the model's dictionary from class index to class name.
\<close>

record box =
  cls :: int
  conf :: real
  xyxy :: "real \<times> real \<times> real \<times> real"

text \<open>
  The state the loop carries: the module-level \<open>last_alert_time\<close>, the counters, the set
  and the rectangles of the current frame, the database, the effects of the channel
  threads started so far (one list per thread) and the lines the loop itself prints.
\<close>

record loop_state =
  last_alert_time :: cooldown_state
  frame_count :: nat
  detection_count :: nat
  detected_animals :: "string set"
  rectangles :: "(int \<times> int \<times> int \<times> int) list"
  db :: database
  threads :: "effect list list"
  console :: "string list"

definition initial_state :: "database \<Rightarrow> loop_state" where
  "initial_state d =
     \<lparr>last_alert_time = Map.empty, frame_count = 0, detection_count = 0,
      detected_animals = {}, rectangles = [], db = d, threads = [], console = []\<rparr>"

text \<open>
  Scaling a box back to the original frame. A shape is (rows, columns), so index 1 is the
  width and index 0 the height; a zero divisor raises. Each product is a tensor element,
  which \<open>int\<close> truncates.
\<close>

definition rescale_box ::
  "arith \<Rightarrow> nat \<times> nat \<Rightarrow> nat \<times> nat \<Rightarrow> real \<times> real \<times> real \<times> real \<Rightarrow>
   py_exn + (int \<times> int \<times> int \<times> int)" where
  "rescale_box ar frame_shape process_shape b =
     (case b of (x1, y1, x2, y2) \<Rightarrow>
        if snd process_shape = 0 \<or> fst process_shape = 0 then Inl ZeroDivisionError
        else
          (let scale_x = truediv ar (snd frame_shape) (snd process_shape);
               scale_y = truediv ar (fst frame_shape) (fst process_shape)
           in Inr (py_int (tensor_mul ar x1 scale_x), py_int (tensor_mul ar y1 scale_y),
                   py_int (tensor_mul ar x2 scale_x), py_int (tensor_mul ar y2 scale_y))))"

text \<open>
  The body of \<open>if should_send_alert(label)\<close> after the counter: save the image, start
  the sound thread and the email thread, then write the two records inside one
  \<open>try\<close> block. An exception in a thread ends that thread only; the loop sees nothing
  of it, so a thread contributes its effects and nothing else. Starting a thread is taken
  to succeed.
\<close>

definition main_dispatch :: "config \<Rightarrow> box_env \<Rightarrow> string \<Rightarrow> real \<Rightarrow> loop_state \<Rightarrow> loop_state" where
  "main_dispatch cfg env animal confidence s =
     (let image_path = save_detection_image (detection_cfg cfg) env animal;
          sound_thread = play_sound_alert (sound_cfg cfg) (sound_world env) (Some animal);
          email_thread =
            snd (send_email_alert (email_cfg cfg) (email_world env) animal confidence image_path);
          s1 = s\<lparr>threads := threads s @ [sound_thread, email_thread]\<rparr>;
          uid = dict_get (user_id (database_cfg cfg)) 1
      in case add_detection (detection_write env) uid (capitalize animal)
                (Some ''Camera Feed'') (db s1) of
           Inl e \<Rightarrow> s1\<lparr>console := console s1 @ [''Database error'']\<rparr>
         | Inr d1 \<Rightarrow>
            (case add_alert (alert_write env) uid
                    (capitalize animal @ '' detected - Alert activated'') ''danger'' d1 of
               Inl e \<Rightarrow> s1\<lparr>db := d1, console := console s1 @ [''Database error'']\<rparr>
             | Inr d2 \<Rightarrow> s1\<lparr>db := d2\<rparr>))"

text \<open>
  The body of \<open>for box in r.boxes\<close>, with its \<open>try\<close> and \<open>except Exception: continue\<close>.
\<close>

definition main_box ::
  "config \<Rightarrow> arith \<Rightarrow> (int \<rightharpoonup> string) \<Rightarrow> nat \<times> nat \<Rightarrow> nat \<times> nat \<Rightarrow> box \<times> box_env \<Rightarrow>
   loop_state \<Rightarrow> loop_state" where
  "main_box cfg ar names frame_shape process_shape be s =
     (case names (cls (fst be)) of
        None \<Rightarrow> s\<lparr>console := console s @ [''Error processing detection'']\<rparr>
      | Some name \<Rightarrow>
         (let animal = lower name;
              confidence = conf (fst be)
          in if animal \<in> set (target_animals cfg) \<and>
                confidence > dict_get (confidence_threshold (detection_cfg cfg)) 0.5
             then
               (let s1 = s\<lparr>detected_animals := insert animal (detected_animals s)\<rparr>
                in case rescale_box ar frame_shape process_shape (xyxy (fst be)) of
                     Inl e \<Rightarrow> s1\<lparr>console := console s1 @ [''Error processing detection'']\<rparr>
                   | Inr r \<Rightarrow>
                      (let s2 = s1\<lparr>rectangles := rectangles s1 @ [r]\<rparr>;
                           g = should_send_alert (detection_cfg cfg) (now (snd be)) animal
                                 (last_alert_time s2);
                           s3 = s2\<lparr>last_alert_time := snd g\<rparr>
                       in if fst g
                          then main_dispatch cfg (snd be) animal confidence
                                 (s3\<lparr>detection_count := detection_count s3 + 1\<rparr>)
                          else s3))
             else s))"

text \<open>
  One turn of the \<open>while\<close> loop for a frame that was read: count it, resize it to the
  configured size (which raises when a side is not positive), run the classifier and
  process its boxes in order. The result tells whether an exception left the turn.
\<close>

record frame =
  shape :: "nat \<times> nat"
  boxes :: "(box \<times> box_env) list"

definition main_frame ::
  "config \<Rightarrow> arith \<Rightarrow> (int \<rightharpoonup> string) \<Rightarrow> frame \<Rightarrow> loop_state \<Rightarrow> py_exn option \<times> loop_state" where
  "main_frame cfg ar names fr s =
     (let w = dict_get (frame_width (detection_cfg cfg)) 640;
          h = dict_get (frame_height (detection_cfg cfg)) 480;
          s0 = s\<lparr>frame_count := frame_count s + 1\<rparr>
      in if w \<le> 0 \<or> h \<le> 0 then (Some (OtherException ''cv2.error''), s0)
         else (None,
               foldl (\<lambda>st be. main_box cfg ar names (shape fr) (nat h, nat w) be st)
                 (s0\<lparr>detected_animals := {}, rectangles := []\<rparr>) (boxes fr)))"

text \<open>
  The loop over the frames read until the camera fails or the user quits; an exception
  that leaves a turn ends the loop.
\<close>

fun main_loop ::
  "config \<Rightarrow> arith \<Rightarrow> (int \<rightharpoonup> string) \<Rightarrow> frame list \<Rightarrow> loop_state \<Rightarrow> loop_state" where
  "main_loop cfg ar names [] s = s"
| "main_loop cfg ar names (fr # frs) s =
     (case fst (main_frame cfg ar names fr s) of
        Some e \<Rightarrow>
          (snd (main_frame cfg ar names fr s))
            \<lparr>console := console (snd (main_frame cfg ar names fr s)) @ [''Error during detection'']\<rparr>
      | None \<Rightarrow> main_loop cfg ar names frs (snd (main_frame cfg ar names fr s)))"

definition main ::
  "config \<Rightarrow> arith \<Rightarrow> (int \<rightharpoonup> string) \<Rightarrow> frame list \<Rightarrow> database \<Rightarrow> loop_state" where
  "main cfg ar names frames d = main_loop cfg ar names frames (initial_state d)"

section \<open>The process supervisor (camera.py)\<close>






section \<open>Observations used in the properties\<close>

text \<open>Kinds of effects, and the two conditions under which an email is delivered.\<close>

fun is_connect :: "effect \<Rightarrow> bool" where
  "is_connect (SmtpConnect server port) = True"
| "is_connect e = False"

fun is_send :: "effect \<Rightarrow> bool" where
  "is_send (SendMessage msg) = True"
| "is_send e = False"

fun is_print :: "effect \<Rightarrow> bool" where
  "is_print (Print line) = True"
| "is_print e = False"

definition email_ready :: "email_config \<Rightarrow> bool" where
  "email_ready ecfg =
     (dict_get (enabled ecfg) False \<and> truthy (sender_email ecfg) \<and> truthy (sender_password ecfg))"

definition transport_ok :: "email_config \<Rightarrow> email_env \<Rightarrow> bool" where
  "transport_ok ecfg env =
     (recipient_email ecfg \<noteq> None \<and> smtp_server ecfg \<noteq> None \<and> smtp_port ecfg \<noteq> None \<and>
      smtp_connect env = None \<and> smtp_starttls env = None \<and> smtp_login env = None \<and>
      smtp_send env = None \<and> smtp_quit env = None)"

text \<open>Sample answers of the outside world: every step succeeds.\<close>

definition ok_env :: email_env where
  "ok_env = \<lparr>clock_text = ''2025-11-26 10:30:00'', image_exists = True, image_read = None,
             smtp_connect = None, smtp_starttls = None, smtp_login = None, smtp_send = None,
             smtp_quit = None\<rparr>"


text \<open>
  Whether both insertions of a box succeed, and how the alert counter and the two
  tables move between two states of the loop.
\<close>

definition writes_ok :: "box \<times> box_env \<Rightarrow> bool" where
  "writes_ok be = (detection_write (snd be) = None \<and> alert_write (snd be) = None)"

definition counts_grow :: "loop_state \<Rightarrow> loop_state \<Rightarrow> bool" where
  "counts_grow s s' =
     (detection_count s \<le> detection_count s' \<and>
      length (detections (db s)) \<le> length (detections (db s')) \<and>
      length (alerts (db s)) \<le> length (alerts (db s')) \<and>
      length (detections (db s')) + detection_count s \<le>
        length (detections (db s)) + detection_count s' \<and>
      length (alerts (db s')) + length (detections (db s)) \<le>
        length (alerts (db s)) + length (detections (db s')))"

definition counts_match :: "loop_state \<Rightarrow> loop_state \<Rightarrow> bool" where
  "counts_match s s' =
     (length (detections (db s')) + detection_count s =
        length (detections (db s)) + detection_count s' \<and>
      length (alerts (db s')) + detection_count s =
        length (alerts (db s)) + detection_count s')"

text \<open>Sample inputs: a class dictionary, answers of the outside world, boxes and runs.\<close>

definition coco_names :: "int \<rightharpoonup> string" where
  "coco_names = [0 \<mapsto> ''person'', 15 \<mapsto> ''cat'', 16 \<mapsto> ''dog'']"

definition silent :: sound_env where
  "silent = \<lparr>sound_file_exists = False, popen_fails = False, ffplay_fails = False,
             winsound_missing = True, beep_fails = False\<rparr>"

definition world :: box_env where
  "world = \<lparr>now = 1000, image_save = None, timestamp = ''20251126_103000'',
            sound_world = silent, email_world = ok_env, detection_write = None,
            alert_write = None\<rparr>"

definition dog_box :: box where
  "dog_box = \<lparr>cls = 16, conf = 0.9, xyxy = (100, 100, 200, 200)\<rparr>"

definition empty_db :: database where
  "empty_db = \<lparr>detections = [], alerts = []\<rparr>"

definition busy_frames :: "frame list" where
  "busy_frames =
     [\<lparr>shape = (720, 1280),
       boxes = [(dog_box, world\<lparr>email_world := ok_env\<lparr>smtp_connect := Some (OtherException ''refused'')\<rparr>\<rparr>),
                (dog_box, world\<lparr>now := 1030\<rparr>),
                (dog_box\<lparr>cls := 15\<rparr>, world\<lparr>now := 1031\<rparr>)]\<rparr>]"

definition locked_frames :: "frame list" where
  "locked_frames =
     [\<lparr>shape = (720, 1280),
       boxes = [(dog_box,
                 world\<lparr>detection_write := Some (OtherException ''database is locked'')\<rparr>)]\<rparr>]"

definition fractional_frames :: "frame list" where
  "fractional_frames =
     [\<lparr>shape = (720, 1280),
       boxes = [(dog_box\<lparr>xyxy := (100.25, 100, 200, 200)\<rparr>, world)]\<rparr>]"

section \<open>Properties of the cooldown gate\<close>

lemma gate_calls_length: "length (fst (gate_calls dcfg cs m)) = length cs"
  by (induction cs arbitrary: m) (auto simp: Let_def)

text \<open>
  C4. For a label with no entry in the cooldown state, the gate returns true whatever
  the current time is, and records the current time as the label's last alert time.
\<close>

theorem should_send_alert_first_call:
  "m animal_type = None \<Longrightarrow>
     fst (should_send_alert dcfg t animal_type m) = True \<and>
     snd (should_send_alert dcfg t animal_type m) animal_type = Some t \<and>
     snd (should_send_alert dcfg t animal_type m) = m(animal_type \<mapsto> t)"
  by (simp add: should_send_alert_def)

theorem should_send_alert_first_call_witness:
  "(Map.empty :: cooldown_state) ''dog'' = None \<and>
   fst (should_send_alert DETECTION_CONFIG (-5) ''dog'' Map.empty) = True \<and>
   snd (should_send_alert DETECTION_CONFIG (-5) ''dog'' Map.empty) ''dog'' = Some (-5)"
  using should_send_alert_first_call [of Map.empty "''dog''" DETECTION_CONFIG "-5"]
  by simp

text \<open>
  C5. For a label with an entry, the gate returns true and stores the current time when
  the time since the last alert is at least the cooldown, and otherwise returns false
  and leaves the state as it was; with a cooldown of 60 seconds, calls for "dog" at
  \<open>t0\<close>, \<open>t0 + 30\<close> and \<open>t0 + 61\<close> return true, false, true.
\<close>

theorem should_send_alert_known_label:
  "(m animal_type = Some last_time \<longrightarrow>
      should_send_alert dcfg t animal_type m =
        (if t - last_time \<ge> dict_get (alert_cooldown dcfg) 60
         then (True, m(animal_type \<mapsto> t))
         else (False, m))) \<and>
   (alert_cooldown dcfg = Some 60 \<longrightarrow> m0 ''dog'' = None \<longrightarrow>
      fst (gate_calls dcfg [(''dog'', t0), (''dog'', t0 + 30), (''dog'', t0 + 61)] m0) =
        [True, False, True])"
  by (simp add: should_send_alert_def dict_get_def Let_def)

theorem should_send_alert_known_label_witness:
  "[''dog'' \<mapsto> (100::real)] ''dog'' = Some 100 \<and>
   should_send_alert DETECTION_CONFIG 160 ''dog'' [''dog'' \<mapsto> 100] =
     (True, [''dog'' \<mapsto> 160]) \<and>
   should_send_alert DETECTION_CONFIG 159 ''dog'' [''dog'' \<mapsto> 100] =
     (False, [''dog'' \<mapsto> 100]) \<and>
   alert_cooldown DETECTION_CONFIG = Some 60 \<and>
   (Map.empty :: cooldown_state) ''dog'' = None \<and>
   fst (gate_calls DETECTION_CONFIG [(''dog'', 7), (''dog'', 7 + 30), (''dog'', 7 + 61)] Map.empty) =
     [True, False, True]"
  using should_send_alert_known_label
          [of "[''dog'' \<mapsto> 100]" "''dog''" 100 DETECTION_CONFIG 160 Map.empty 7]
        should_send_alert_known_label
          [of "[''dog'' \<mapsto> 100]" "''dog''" 100 DETECTION_CONFIG 159 Map.empty 7]
  by (simp add: DETECTION_CONFIG_def dict_get_def)

subsection \<open>Separation of alerts\<close>

lemma gate_other_label:
  "l \<noteq> L \<Longrightarrow> snd (should_send_alert dcfg t l m) L = m L"
  by (simp add: should_send_alert_def Let_def split: option.splits)

lemma gate_local:
  "m L = m' L \<Longrightarrow>
     fst (should_send_alert dcfg t L m) = fst (should_send_alert dcfg t L m') \<and>
     snd (should_send_alert dcfg t L m) L = snd (should_send_alert dcfg t L m') L"
  by (simp add: should_send_alert_def Let_def split: option.splits)

lemma gate_entry_monotone:
  "m L = Some a \<Longrightarrow> a \<le> t \<Longrightarrow>
     \<exists>b. snd (should_send_alert dcfg t l m) L = Some b \<and> a \<le> b \<and> b \<le> t"
  by (auto simp add: should_send_alert_def Let_def split: option.splits)

lemma gate_true_after:
  "m L = Some a \<Longrightarrow> fst (should_send_alert dcfg t L m) \<Longrightarrow>
     t - a \<ge> dict_get (alert_cooldown dcfg) 60"
  by (auto simp add: should_send_alert_def Let_def split: option.splits if_splits)

lemma gate_true_stores:
  "fst (should_send_alert dcfg t L m) \<Longrightarrow> snd (should_send_alert dcfg t L m) L = Some t"
  by (auto simp add: should_send_alert_def Let_def split: option.splits if_splits)

lemma gate_calls_after_entry:
  "m L = Some a \<Longrightarrow> sorted (map snd cs) \<Longrightarrow> \<forall>t \<in> set (map snd cs). a \<le> t \<Longrightarrow>
   j < length cs \<Longrightarrow> fst (cs ! j) = L \<Longrightarrow> fst (gate_calls dcfg cs m) ! j \<Longrightarrow>
   snd (cs ! j) - a \<ge> dict_get (alert_cooldown dcfg) 60"
proof (induction cs arbitrary: m a j)
  case Nil
  then show ?case by simp
next
  case (Cons c cs)
  obtain l t where c: "c = (l, t)" by (cases c)
  show ?case
  proof (cases j)
    case 0
    with Cons.prems c show ?thesis
      by (auto simp: Let_def dest: gate_true_after)
  next
    case (Suc k)
    from Cons.prems c have at: "a \<le> t" by simp
    from gate_entry_monotone [where m = m and L = L and a = a and t = t and dcfg = dcfg and l = l,
           OF Cons.prems(1) at]
    obtain b where b: "snd (should_send_alert dcfg t l m) L = Some b" "a \<le> b" "b \<le> t"
      by blast
    have sorted_tl: "sorted (map snd cs)" and ge: "\<forall>u \<in> set (map snd cs). b \<le> u"
      using Cons.prems(2) c b(3) by auto
    have "snd (cs ! k) - b \<ge> dict_get (alert_cooldown dcfg) 60"
      using Cons.IH [where m = "snd (should_send_alert dcfg t l m)" and a = b and j = k,
              OF b(1) sorted_tl ge] Cons.prems c Suc
      by (simp add: Let_def)
    with b(2) have "snd (cs ! k) - a \<ge> dict_get (alert_cooldown dcfg) 60" by linarith
    with Suc show ?thesis by simp
  qed
qed

lemma gate_calls_separated:
  "sorted (map snd cs) \<Longrightarrow> i < j \<Longrightarrow> j < length cs \<Longrightarrow>
   fst (cs ! i) = L \<Longrightarrow> fst (cs ! j) = L \<Longrightarrow>
   fst (gate_calls dcfg cs m) ! i \<Longrightarrow> fst (gate_calls dcfg cs m) ! j \<Longrightarrow>
   snd (cs ! j) - snd (cs ! i) \<ge> dict_get (alert_cooldown dcfg) 60"
proof (induction cs arbitrary: m i j)
  case Nil
  then show ?case by simp
next
  case (Cons c cs)
  obtain l t where c: "c = (l, t)" by (cases c)
  from Cons.prems obtain k where j: "j = Suc k" by (cases j) auto
  show ?case
  proof (cases i)
    case 0
    with Cons.prems c have l: "l = L" and r: "fst (should_send_alert dcfg t L m)"
      by (auto simp: Let_def)
    have st: "snd (should_send_alert dcfg t L m) L = Some t"
      using gate_true_stores [OF r] .
    have sorted_tl: "sorted (map snd cs)" and ge: "\<forall>u \<in> set (map snd cs). t \<le> u"
      using Cons.prems(1) c by auto
    have "snd (cs ! k) - t \<ge> dict_get (alert_cooldown dcfg) 60"
      using gate_calls_after_entry
              [where m = "snd (should_send_alert dcfg t L m)" and L = L and a = t and cs = cs
                 and j = k and dcfg = dcfg, OF st sorted_tl ge] Cons.prems c j l
      by (simp add: Let_def)
    with 0 j c show ?thesis by simp
  next
    case (Suc i')
    have sorted_tl: "sorted (map snd cs)" using Cons.prems(1) by simp
    show ?thesis
      using Cons.IH [OF sorted_tl, of i' k "snd (should_send_alert dcfg t l m)"] Cons.prems c j Suc
      by (simp add: Let_def)
  qed
qed

lemma gate_calls_first:
  "m L = None \<Longrightarrow> k < length cs \<Longrightarrow> fst (cs ! k) = L \<Longrightarrow>
   \<forall>i < k. fst (cs ! i) \<noteq> L \<Longrightarrow> fst (gate_calls dcfg cs m) ! k"
proof (induction cs arbitrary: m k)
  case Nil
  then show ?case by simp
next
  case (Cons c cs)
  obtain l t where c: "c = (l, t)" by (cases c)
  show ?case
  proof (cases k)
    case 0
    with Cons.prems c show ?thesis
      by (simp add: Let_def should_send_alert_def)
  next
    case (Suc k')
    with Cons.prems c have ne: "l \<noteq> L" by auto
    have none: "snd (should_send_alert dcfg t l m) L = None"
      using gate_other_label [OF ne] Cons.prems(1) by simp
    have "\<forall>i < k'. fst (cs ! i) \<noteq> L" using Cons.prems(4) Suc by auto
    then show ?thesis
      using Cons.IH [where m = "snd (should_send_alert dcfg t l m)" and k = k', OF none]
        Cons.prems c Suc by (simp add: Let_def)
  qed
qed

lemma gate_calls_project:
  "m L = m' L \<Longrightarrow>
   map snd (filter (\<lambda>p. fst (fst p) = L) (zip cs (fst (gate_calls dcfg cs m)))) =
     fst (gate_calls dcfg (filter (\<lambda>c. fst c = L) cs) m') \<and>
   snd (gate_calls dcfg cs m) L = snd (gate_calls dcfg (filter (\<lambda>c. fst c = L) cs) m') L"
proof (induction cs arbitrary: m m')
  case Nil
  then show ?case by simp
next
  case (Cons c cs)
  obtain l t where c: "c = (l, t)" by (cases c)
  show ?case
  proof (cases "l = L")
    case True
    have loc: "fst (should_send_alert dcfg t L m) = fst (should_send_alert dcfg t L m')"
      "snd (should_send_alert dcfg t L m) L = snd (should_send_alert dcfg t L m') L"
      using gate_local [where m = m and m' = m' and L = L, OF Cons.prems] by auto
    show ?thesis
      using Cons.IH [where m = "snd (should_send_alert dcfg t L m)"
                       and m' = "snd (should_send_alert dcfg t L m')", OF loc(2)] loc(1) c True
      by (simp add: Let_def)
  next
    case False
    have keep: "snd (should_send_alert dcfg t l m) L = m' L"
      using gate_other_label [OF False] Cons.prems by simp
    show ?thesis
      using Cons.IH [where m = "snd (should_send_alert dcfg t l m)" and m' = m', OF keep] c False
      by (simp add: Let_def)
  qed
qed

text \<open>
  C2. In any sequence of calls of the gate whose clock readings do not decrease, two
  calls for the same label that both return true are at least the cooldown apart; and
  the first call for a label with no entry returns true whatever its clock reading is.
\<close>

theorem cooldown_separation:
  "(sorted (map snd cs) \<longrightarrow> i < j \<longrightarrow> j < length cs \<longrightarrow>
      fst (cs ! i) = L \<longrightarrow> fst (cs ! j) = L \<longrightarrow>
      fst (gate_calls dcfg cs m) ! i \<longrightarrow> fst (gate_calls dcfg cs m) ! j \<longrightarrow>
      snd (cs ! j) - snd (cs ! i) \<ge> dict_get (alert_cooldown dcfg) 60) \<and>
   (m L = None \<longrightarrow> k < length cs \<longrightarrow> fst (cs ! k) = L \<longrightarrow>
      (\<forall>i < k. fst (cs ! i) \<noteq> L) \<longrightarrow> fst (gate_calls dcfg cs m) ! k)"
  using gate_calls_separated [of cs i j L dcfg m]
        gate_calls_first [where m = m and L = L and k = k and cs = cs and dcfg = dcfg]
  by blast

theorem cooldown_separation_witness:
  "sorted (map snd [(''dog'', 0::real), (''cat'', 10), (''dog'', 30), (''dog'', 61), (''dog'', 130)]) \<and>
   fst (gate_calls DETECTION_CONFIG
          [(''dog'', 0), (''cat'', 10), (''dog'', 30), (''dog'', 61), (''dog'', 130)] Map.empty) =
     [True, True, False, True, True] \<and>
   (130::real) - 61 \<ge> dict_get (alert_cooldown DETECTION_CONFIG) 60"
  using cooldown_separation
          [of "[(''dog'', 0), (''cat'', 10), (''dog'', 30), (''dog'', 61), (''dog'', 130)]"
              3 4 "''dog''" DETECTION_CONFIG Map.empty 1]
  by (simp add: DETECTION_CONFIG_def dict_get_def should_send_alert_def Let_def)

text \<open>
  C6. A call of the gate for label A leaves the entry of every other label B as it was
  and its result depends on the entry of A only; in any interleaving of calls, the results
  of the calls for B and the final entry of B are those of the calls for B run alone.
\<close>

theorem labels_independent:
  "(A \<noteq> B \<longrightarrow> snd (should_send_alert dcfg t A m) B = m B) \<and>
   (m A = m' A \<longrightarrow>
      fst (should_send_alert dcfg t A m) = fst (should_send_alert dcfg t A m') \<and>
      snd (should_send_alert dcfg t A m) A = snd (should_send_alert dcfg t A m') A) \<and>
   map snd (filter (\<lambda>p. fst (fst p) = B) (zip cs (fst (gate_calls dcfg cs m)))) =
     fst (gate_calls dcfg (filter (\<lambda>c. fst c = B) cs) m) \<and>
   snd (gate_calls dcfg cs m) B = snd (gate_calls dcfg (filter (\<lambda>c. fst c = B) cs) m) B"
  using gate_other_label [of A B dcfg t m]
        gate_local [where m = m and m' = m' and L = A and dcfg = dcfg and t = t]
        gate_calls_project [where m = m and m' = m and L = B and cs = cs and dcfg = dcfg]
  by blast

theorem labels_independent_witness:
  "''dog'' \<noteq> ''cat'' \<and>
   snd (should_send_alert DETECTION_CONFIG 5 ''dog'' [''cat'' \<mapsto> 1]) ''cat'' = Some 1 \<and>
   fst (should_send_alert DETECTION_CONFIG 5 ''dog'' [''cat'' \<mapsto> 1]) =
     fst (should_send_alert DETECTION_CONFIG 5 ''dog'' [''cat'' \<mapsto> 4]) \<and>
   map snd (filter (\<lambda>p. fst (fst p) = ''cat'')
      (zip [(''dog'', 0), (''cat'', 10), (''dog'', 30), (''cat'', 61), (''cat'', 75)]
           (fst (gate_calls DETECTION_CONFIG
                   [(''dog'', 0), (''cat'', 10), (''dog'', 30), (''cat'', 61), (''cat'', 75)]
                   Map.empty)))) =
     fst (gate_calls DETECTION_CONFIG [(''cat'', 10), (''cat'', 61), (''cat'', 75)] Map.empty)"
  using labels_independent
          [of "''dog''" "''cat''" DETECTION_CONFIG 5 "[''cat'' \<mapsto> 1]" "[''cat'' \<mapsto> 4]"
              "[(''dog'', 0), (''cat'', 10), (''dog'', 30), (''cat'', 61), (''cat'', 75)]"]
        labels_independent
          [of "''dog''" "''cat''" DETECTION_CONFIG 5 Map.empty Map.empty
              "[(''dog'', 0), (''cat'', 10), (''dog'', 30), (''cat'', 61), (''cat'', 75)]"]
  by (simp add: DETECTION_CONFIG_def dict_get_def should_send_alert_def Let_def)

section \<open>Properties of the notification channel\<close>

lemma smtp_session_result:
  "truthy (sender_email ecfg) \<Longrightarrow> truthy (sender_password ecfg) \<Longrightarrow>
   (fst (smtp_session ecfg env msg) = Inr ()) =
     (smtp_starttls env = None \<and> smtp_login env = None \<and> smtp_send env = None \<and>
      smtp_quit env = None)"
  by (auto simp: smtp_session_def truthy_def Let_def split: option.splits)

lemma smtp_session_counts:
  "length (filter is_connect (snd (smtp_session ecfg env msg))) = 0 \<and>
   length (filter is_send (snd (smtp_session ecfg env msg))) \<le> 1"
  by (auto simp: smtp_session_def Let_def split: option.splits)

lemma email_try_body_result:
  "truthy (sender_email ecfg) \<Longrightarrow> truthy (sender_password ecfg) \<Longrightarrow>
   (fst (email_try_body ecfg env a c p) = Inr ()) = transport_ok ecfg env"
  using smtp_session_result [of ecfg env]
  by (auto simp: email_try_body_def transport_ok_def Let_def split: option.splits)

lemma email_try_body_counts:
  "length (filter is_connect (snd (email_try_body ecfg env a c p))) \<le> 1 \<and>
   length (filter is_send (snd (email_try_body ecfg env a c p))) \<le> 1"
  using smtp_session_counts [of ecfg env]
  by (auto simp: email_try_body_def Let_def split: option.splits)

lemma send_email_alert_result:
  "fst (send_email_alert ecfg env a c p) = Inr (email_ready ecfg \<and> transport_ok ecfg env)"
proof (cases "email_ready ecfg")
  case False
  then show ?thesis by (auto simp: send_email_alert_def email_ready_def)
next
  case True
  then have t: "truthy (sender_email ecfg)" "truthy (sender_password ecfg)"
    by (simp_all add: email_ready_def)
  obtain r tr where b: "email_try_body ecfg env a c p = (r, tr)" by (cases "email_try_body ecfg env a c p")
  have "(r = Inr ()) = transport_ok ecfg env"
    using email_try_body_result [OF t, of env a c p] b by simp
  then show ?thesis using True b
    by (cases r) (auto simp: send_email_alert_def email_ready_def split: py_exn.splits)
qed

lemma send_email_alert_last_print:
  "dict_get (enabled ecfg) False \<Longrightarrow> is_print (last (snd (send_email_alert ecfg env a c p)))"
  by (auto simp: send_email_alert_def split: prod.splits sum.splits py_exn.splits)

lemma send_email_alert_counts:
  "length (filter is_connect (snd (send_email_alert ecfg env a c p))) \<le> 1 \<and>
   length (filter is_send (snd (send_email_alert ecfg env a c p))) \<le> 1"
  using email_try_body_counts [of ecfg env a c p]
  by (auto simp: send_email_alert_def split: prod.splits sum.splits py_exn.splits)

text \<open>
  C8. Whatever the email transport answers (authentication failure, connection failure
  or any other exception while composing or sending), \<open>send_email_alert\<close> returns a
  value and no exception leaves it; the value is False unless every step succeeded; the
  last thing it did is print a line; and it connects and sends at most once (no retry).
\<close>

theorem send_email_alert_absorbs_failures:
  "fst (send_email_alert ecfg env a c p) = Inr (email_ready ecfg \<and> transport_ok ecfg env) \<and>
   (\<not> transport_ok ecfg env \<longrightarrow> fst (send_email_alert ecfg env a c p) = Inr False) \<and>
   (dict_get (enabled ecfg) False \<longrightarrow> is_print (last (snd (send_email_alert ecfg env a c p)))) \<and>
   length (filter is_connect (snd (send_email_alert ecfg env a c p))) \<le> 1 \<and>
   length (filter is_send (snd (send_email_alert ecfg env a c p))) \<le> 1"
  using send_email_alert_result [of ecfg env a c p]
        send_email_alert_last_print [of ecfg env a c p]
        send_email_alert_counts [of ecfg env a c p]
  by simp

theorem send_email_alert_absorbs_failures_witness:
  "\<not> transport_ok EMAIL_CONFIG (ok_env\<lparr>smtp_login := Some SMTPAuthenticationError\<rparr>) \<and>
   dict_get (enabled EMAIL_CONFIG) False \<and>
   send_email_alert EMAIL_CONFIG (ok_env\<lparr>smtp_login := Some SMTPAuthenticationError\<rparr>)
       ''dog'' 0.9 None =
     (Inr False,
      [SmtpConnect ''smtp.gmail.com'' 587, StartTls,
       Login ''your_gmail@gmail.com'' ''yourpassword'', SmtpQuit,
       Print ''Email authentication failed.'']) \<and>
   fst (send_email_alert EMAIL_CONFIG (ok_env\<lparr>smtp_connect := Some (OtherException ''refused'')\<rparr>)
       ''dog'' 0.9 None) = Inr False"
  using send_email_alert_absorbs_failures
          [of EMAIL_CONFIG "ok_env\<lparr>smtp_login := Some SMTPAuthenticationError\<rparr>" "''dog''" "0.9" None]
        send_email_alert_absorbs_failures
          [of EMAIL_CONFIG "ok_env\<lparr>smtp_connect := Some (OtherException ''refused'')\<rparr>" "''dog''" "0.9" None]
  by (simp add: transport_ok_def email_ready_def EMAIL_CONFIG_def ok_env_def dict_get_def truthy_def
        send_email_alert_def email_try_body_def smtp_session_def py_or_def Let_def)

text \<open>
  C10. When the email channel is disabled, or the sender address or the sender password
  is missing or empty, \<open>send_email_alert\<close> returns False and performs no SMTP
  operation: it does nothing in the first case and prints one line in the others.
\<close>

theorem send_email_alert_guard:
  "\<not> dict_get (enabled ecfg) False \<or> \<not> truthy (sender_email ecfg) \<or>
     \<not> truthy (sender_password ecfg) \<Longrightarrow>
   send_email_alert ecfg env a c p =
     (Inr False,
      if \<not> dict_get (enabled ecfg) False then []
      else [Print ''Email not configured. Skipping email alert.''])"
  by (auto simp: send_email_alert_def)

theorem send_email_alert_guard_witness:
  "\<not> dict_get (enabled (EMAIL_CONFIG\<lparr>enabled := Some False\<rparr>)) False \<and>
   send_email_alert (EMAIL_CONFIG\<lparr>enabled := Some False\<rparr>) ok_env ''dog'' 0.9 None =
     (Inr False, []) \<and>
   \<not> truthy (sender_password (EMAIL_CONFIG\<lparr>sender_password := Some []\<rparr>)) \<and>
   send_email_alert (EMAIL_CONFIG\<lparr>sender_password := Some []\<rparr>) ok_env ''dog'' 0.9 None =
     (Inr False, [Print ''Email not configured. Skipping email alert.'']) \<and>
   \<not> truthy (sender_email (EMAIL_CONFIG\<lparr>sender_email := None\<rparr>)) \<and>
   send_email_alert (EMAIL_CONFIG\<lparr>sender_email := None\<rparr>) ok_env ''dog'' 0.9 None =
     (Inr False, [Print ''Email not configured. Skipping email alert.''])"
  using send_email_alert_guard [of "EMAIL_CONFIG\<lparr>enabled := Some False\<rparr>" ok_env "''dog''" "0.9" None]
        send_email_alert_guard [of "EMAIL_CONFIG\<lparr>sender_password := Some []\<rparr>" ok_env "''dog''" "0.9" None]
        send_email_alert_guard [of "EMAIL_CONFIG\<lparr>sender_email := None\<rparr>" ok_env "''dog''" "0.9" None]
  by (simp add: EMAIL_CONFIG_def dict_get_def truthy_def)


section \<open>Properties of the process supervisor\<close>







section \<open>Properties of the detection loop\<close>

lemma main_dispatch_keeps:
  "rectangles (main_dispatch cfg env a c s) = rectangles s"
  "detected_animals (main_dispatch cfg env a c s) = detected_animals s"
  "last_alert_time (main_dispatch cfg env a c s) = last_alert_time s"
  "detection_count (main_dispatch cfg env a c s) = detection_count s"
  "frame_count (main_dispatch cfg env a c s) = frame_count s"
  by (simp_all add: main_dispatch_def Let_def split: sum.splits)

lemma main_dispatch_detections:
  "detections (db (main_dispatch cfg env a c s)) =
     (if detection_write env = None
      then detections (db s) @
             [\<lparr>det_user_id = dict_get (user_id (database_cfg cfg)) 1,
               det_animal_type = capitalize a, det_location = Some ''Camera Feed''\<rparr>]
      else detections (db s))"
  by (simp add: main_dispatch_def add_detection_def add_alert_def Let_def
        split: sum.splits option.splits)

lemma main_dispatch_alerts:
  "alerts (db (main_dispatch cfg env a c s)) =
     (if detection_write env = None \<and> alert_write env = None
      then alerts (db s) @
             [\<lparr>alert_user_id = dict_get (user_id (database_cfg cfg)) 1,
               alert_message = capitalize a @ '' detected - Alert activated'',
               alert_type = ''danger''\<rparr>]
      else alerts (db s))"
  by (simp add: main_dispatch_def add_detection_def add_alert_def Let_def
        split: sum.splits option.splits)

lemma rescale_box_ok:
  "0 < w \<Longrightarrow> 0 < h \<Longrightarrow>
   rescale_box ar (H, W) (h, w) (x1, y1, x2, y2) =
     Inr (py_int (tensor_mul ar x1 (truediv ar W w)), py_int (tensor_mul ar y1 (truediv ar H h)),
          py_int (tensor_mul ar x2 (truediv ar W w)), py_int (tensor_mul ar y2 (truediv ar H h)))"
  by (simp add: rescale_box_def Let_def)

lemma main_box_candidate:
  assumes "names (cls b) = Some name"
    and "lower name \<in> set (target_animals cfg)"
    and "conf b > dict_get (confidence_threshold (detection_cfg cfg)) 0.5"
    and "rescale_box ar fshape pshape (xyxy b) = Inr r"
  shows "main_box cfg ar names fshape pshape (b, env) s =
     (let g = should_send_alert (detection_cfg cfg) (now env) (lower name) (last_alert_time s);
          s3 = s\<lparr>detected_animals := insert (lower name) (detected_animals s),
                 rectangles := rectangles s @ [r], last_alert_time := snd g\<rparr>
      in if fst g
         then main_dispatch cfg env (lower name) (conf b)
                (s3\<lparr>detection_count := detection_count s + 1\<rparr>)
         else s3)"
  using assms by (simp add: main_box_def Let_def)

lemma main_box_not_candidate:
  assumes "names (cls b) = Some name"
    and "\<not> (lower name \<in> set (target_animals cfg) \<and>
            conf b > dict_get (confidence_threshold (detection_cfg cfg)) 0.5)"
  shows "main_box cfg ar names fshape pshape (b, env) s = s"
proof -
  let ?cand = "lower name \<in> set (target_animals cfg) \<and>
            conf b > dict_get (confidence_threshold (detection_cfg cfg)) 0.5"
  have "\<not> ?cand" using assms(2) .
  then have "(if ?cand then x else s) = s" for x by (rule if_not_P)
  then show ?thesis using assms(1) by (simp add: main_box_def Let_def)
qed

lemma main_box_detected:
  "detected_animals (main_box cfg ar names fshape pshape be s) =
     detected_animals s \<union>
     {a. \<exists>name. names (cls (fst be)) = Some name \<and> a = lower name \<and>
                 a \<in> set (target_animals cfg) \<and>
                 conf (fst be) > dict_get (confidence_threshold (detection_cfg cfg)) 0.5}"
  by (auto simp: main_box_def Let_def main_dispatch_keeps split: option.splits sum.splits)

lemma foldl_main_box_detected:
  "detected_animals (foldl (\<lambda>st be. main_box cfg ar names fshape pshape be st) s bs) =
     detected_animals s \<union>
     {a. \<exists>be \<in> set bs. \<exists>name. names (cls (fst be)) = Some name \<and> a = lower name \<and>
                 a \<in> set (target_animals cfg) \<and>
                 conf (fst be) > dict_get (confidence_threshold (detection_cfg cfg)) 0.5}"
proof (induction bs arbitrary: s)
  case Nil
  then show ?case by simp
next
  case (Cons be bs)
  show ?case
    unfolding foldl_Cons Cons.IH main_box_detected by auto
qed

lemma main_frame_detected:
  "fst (main_frame cfg ar names fr s) = None \<Longrightarrow>
   detected_animals (snd (main_frame cfg ar names fr s)) =
     {a. \<exists>be \<in> set (boxes fr). \<exists>name. names (cls (fst be)) = Some name \<and> a = lower name \<and>
                 a \<in> set (target_animals cfg) \<and>
                 conf (fst be) > dict_get (confidence_threshold (detection_cfg cfg)) 0.5}"
  by (simp add: main_frame_def Let_def foldl_main_box_detected split: if_splits)

lemmas sample_defs =
  coco_names_def world_def dog_box_def empty_db_def default_config_def DETECTION_CONFIG_def
  TARGET_ANIMALS_def DATABASE_CONFIG_def initial_state_def busy_frames_def locked_frames_def
  fractional_frames_def

lemma ieee_truediv: "truediv ieee a b = fl 53 (real a / real b)"
  by (simp add: ieee_def)

lemma ieee_tensor_mul: "tensor_mul ieee x q = fl 24 (x * fl 24 q)"
  by (simp add: ieee_def)

lemmas float_defs =
  ieee_truediv ieee_tensor_mul fl_def bits.simps pow2_def round_half_even_def Let_def

lemma ieee_quotients:
  "truediv ieee 1280 640 = 2"
  "truediv ieee 720 480 = 3 / 2"
  by (simp_all add: float_defs)

lemma ieee_products:
  "tensor_mul ieee 100 2 = 200"
  "tensor_mul ieee 100 (3 / 2) = 150"
  "tensor_mul ieee 200 2 = 400"
  "tensor_mul ieee 200 (3 / 2) = 300"
  "tensor_mul ieee (401 / 4) 2 = 401 / 2"
  "tensor_mul ieee (8738133 / 65536) (3 / 2) = 200"
  by (simp_all add: float_defs)

lemmas eval_defs =
  main_def main_frame_def main_box_def rescale_box_def py_int_def should_send_alert_def
  ieee_quotients ieee_products
  dict_get_def lower_def lower_char_def Let_def
  main_dispatch_keeps main_dispatch_detections main_dispatch_alerts

lemma counts_grow_trans: "counts_grow s s' \<Longrightarrow> counts_grow s' s'' \<Longrightarrow> counts_grow s s''"
  unfolding counts_grow_def by linarith

lemma counts_match_trans: "counts_match s s' \<Longrightarrow> counts_match s' s'' \<Longrightarrow> counts_match s s''"
  unfolding counts_match_def by linarith

lemma main_box_grow: "counts_grow s (main_box cfg ar names fshape pshape be s)"
  unfolding counts_grow_def
  by (auto simp: main_box_def Let_def main_dispatch_keeps main_dispatch_detections
        main_dispatch_alerts split: option.splits sum.splits)

lemma main_box_match: "writes_ok be \<Longrightarrow> counts_match s (main_box cfg ar names fshape pshape be s)"
  unfolding counts_match_def writes_ok_def
  by (auto simp: main_box_def Let_def main_dispatch_keeps main_dispatch_detections
        main_dispatch_alerts split: option.splits sum.splits)

lemma foldl_main_box_grow:
  "counts_grow s (foldl (\<lambda>st be. main_box cfg ar names fshape pshape be st) s bs)"
proof (induction bs arbitrary: s)
  case Nil
  show ?case by (simp add: counts_grow_def)
next
  case (Cons be bs)
  show ?case
    using counts_grow_trans [OF main_box_grow Cons.IH] by simp
qed

lemma foldl_main_box_match:
  "\<forall>be \<in> set bs. writes_ok be \<Longrightarrow>
   counts_match s (foldl (\<lambda>st be. main_box cfg ar names fshape pshape be st) s bs)"
proof (induction bs arbitrary: s)
  case Nil
  show ?case by (simp add: counts_match_def)
next
  case (Cons be bs)
  have w: "writes_ok be" and rest: "\<forall>b \<in> set bs. writes_ok b"
    using Cons.prems by simp_all
  show ?case
    using counts_match_trans [OF main_box_match [OF w] Cons.IH [OF rest]] by simp
qed

lemma main_frame_grow: "counts_grow s (snd (main_frame cfg ar names fr s))"
proof -
  let ?s0 = "s\<lparr>frame_count := frame_count s + 1\<rparr>"
  have a: "counts_grow s (?s0\<lparr>detected_animals := {}, rectangles := []\<rparr>)"
    and b: "counts_grow s ?s0"
    by (simp_all add: counts_grow_def)
  show ?thesis
    using b counts_grow_trans [OF a foldl_main_box_grow]
    by (simp add: main_frame_def Let_def)
qed

lemma main_frame_match:
  assumes "\<forall>be \<in> set (boxes fr). writes_ok be"
  shows "counts_match s (snd (main_frame cfg ar names fr s))"
proof -
  let ?s0 = "s\<lparr>frame_count := frame_count s + 1\<rparr>"
  have a: "counts_match s (?s0\<lparr>detected_animals := {}, rectangles := []\<rparr>)"
    and b: "counts_match s ?s0"
    by (simp_all add: counts_match_def)
  show ?thesis
    using b counts_match_trans [OF a foldl_main_box_match [OF assms]]
    by (simp add: main_frame_def Let_def)
qed

lemma main_loop_grow: "counts_grow s (main_loop cfg ar names frs s)"
proof (induction frs arbitrary: s)
  case Nil
  show ?case by (simp add: counts_grow_def)
next
  case (Cons fr frs)
  have step: "counts_grow s (snd (main_frame cfg ar names fr s))" by (rule main_frame_grow)
  show ?case
  proof (cases "fst (main_frame cfg ar names fr s)")
    case None
    then show ?thesis using counts_grow_trans [OF step Cons.IH] by simp
  next
    case (Some e)
    then show ?thesis using step by (simp add: counts_grow_def)
  qed
qed

lemma main_loop_match:
  "\<forall>fr \<in> set frs. \<forall>be \<in> set (boxes fr). writes_ok be \<Longrightarrow>
   counts_match s (main_loop cfg ar names frs s)"
proof (induction frs arbitrary: s)
  case Nil
  show ?case by (simp add: counts_match_def)
next
  case (Cons fr frs)
  have w: "\<forall>be \<in> set (boxes fr). writes_ok be"
    and rest: "\<forall>f \<in> set frs. \<forall>be \<in> set (boxes f). writes_ok be"
    using Cons.prems by simp_all
  have step: "counts_match s (snd (main_frame cfg ar names fr s))"
    by (rule main_frame_match [OF w])
  show ?case
  proof (cases "fst (main_frame cfg ar names fr s)")
    case None
    then show ?thesis using counts_match_trans [OF step Cons.IH [OF rest]] by simp
  next
    case (Some e)
    then show ?thesis using step by (simp add: counts_match_def)
  qed
qed

lemma py_int_between:
  fixes v t :: real
  assumes "real_of_int \<lfloor>v\<rfloor> \<le> t" and "t \<le> real_of_int \<lceil>v\<rceil>"
  shows "py_int t = \<lfloor>v\<rfloor> \<or> py_int t = \<lceil>v\<rceil>"
proof -
  have lo: "\<lfloor>v\<rfloor> \<le> \<lfloor>t\<rfloor>" using assms(1) by (simp add: le_floor_iff)
  have hi: "\<lceil>t\<rceil> \<le> \<lceil>v\<rceil>" using assms(2) by (simp add: ceiling_le_iff)
  have lo2: "\<lfloor>v\<rfloor> \<le> \<lceil>t\<rceil>" using assms(1) by linarith
  have hi2: "\<lfloor>t\<rfloor> \<le> \<lceil>v\<rceil>" using assms(2) by linarith
  have "v \<le> real_of_int (\<lfloor>v\<rfloor> + 1)" by linarith
  then have gap: "\<lceil>v\<rceil> \<le> \<lfloor>v\<rfloor> + 1" by (simp only: ceiling_le_iff)
  show ?thesis unfolding py_int_def using lo hi lo2 hi2 gap by (cases "0 \<le> t") auto
qed

lemma floor_or_ceiling_near:
  fixes v :: real
  assumes "k = \<lfloor>v\<rfloor> \<or> k = \<lceil>v\<rceil>"
  shows "\<bar>real_of_int k - v\<bar> < 1" and "v = real_of_int n \<Longrightarrow> k = n"
proof -
  show "\<bar>real_of_int k - v\<bar> < 1" using assms by (auto; linarith)
  show "k = n" if "v = real_of_int n" using assms that by auto
qed

text \<open>
  C1 (as amended). In every run, whatever the sound and email threads of each alert do,
  the run creates at most as many detection records as it triggered alerts and at most
  as many alert records as detection records; when no database insertion fails it
  creates exactly one record of each kind per triggered alert; and when the insertion
  of the detection record of a trigger fails, the database is left as it was, so the
  alert record of that trigger is not written.
\<close>

theorem records_per_trigger:
  "length (detections (db (main cfg ar names frames d))) \<le> length (detections d) + detection_count (main cfg ar names frames d) \<and>
   length (alerts (db (main cfg ar names frames d))) + length (detections d) \<le>
     length (alerts d) + length (detections (db (main cfg ar names frames d))) \<and>
   ((\<forall>fr \<in> set frames. \<forall>be \<in> set (boxes fr). writes_ok be) \<longrightarrow>
      length (detections (db (main cfg ar names frames d))) = length (detections d) + detection_count (main cfg ar names frames d) \<and>
      length (alerts (db (main cfg ar names frames d))) = length (alerts d) + detection_count (main cfg ar names frames d)) \<and>
   (detection_write env \<noteq> None \<longrightarrow> db (main_dispatch cfg env a c s) = db s)"
proof -
  have g: "counts_grow (initial_state d) (main cfg ar names frames d)"
    unfolding main_def by (rule main_loop_grow)
  have m: "counts_match (initial_state d) (main cfg ar names frames d)"
    if "\<forall>fr \<in> set frames. \<forall>be \<in> set (boxes fr). writes_ok be"
    using that unfolding main_def by (rule main_loop_match)
  have k: "db (main_dispatch cfg env a c s) = db s" if "detection_write env \<noteq> None"
    using that by (auto simp: main_dispatch_def add_detection_def Let_def split: option.splits)
  show ?thesis
    using g m k by (auto simp: counts_grow_def counts_match_def initial_state_def)
qed

theorem records_per_trigger_witness:
  "detection_count (main default_config ieee coco_names busy_frames empty_db) = 2 \<and>
   length (detections (db (main default_config ieee coco_names busy_frames empty_db))) = 2 \<and>
   length (alerts (db (main default_config ieee coco_names busy_frames empty_db))) = 2"
proof -
  have w: "\<forall>fr \<in> set busy_frames. \<forall>be \<in> set (boxes fr). writes_ok be"
    by (simp add: writes_ok_def world_def busy_frames_def)
  have n: "detection_count (main default_config ieee coco_names busy_frames empty_db) = 2"
    by (simp add: sample_defs eval_defs)
  show ?thesis
    using w n records_per_trigger [of default_config ieee coco_names busy_frames empty_db world]
    by (simp add: empty_db_def)
qed

text \<open>
  The claim as stated fails: one triggered alert whose detection insertion raises leaves
  no detection record and no alert record.
\<close>

theorem records_per_trigger_counterexample:
  "detection_count (main default_config ieee coco_names locked_frames empty_db) = 1 \<and>
   detections (db (main default_config ieee coco_names locked_frames empty_db)) = [] \<and>
   alerts (db (main default_config ieee coco_names locked_frames empty_db)) = []"
  by (simp add: sample_defs eval_defs)


text \<open>
  C3. A box whose class has a name is a candidate exactly when its lower-cased name is
  in the target animals and its confidence is strictly greater than the threshold: a
  candidate is added to the detected animals and the gate is consulted for it (its
  state and the alert counter move as the gate says); any other box, in particular one
  whose confidence equals the threshold, leaves the state of the loop as it was. After
  a frame the detected animals are exactly the labels of its candidates.
\<close>

theorem candidate_filter:
  "names (cls b) = Some name \<Longrightarrow> 0 < fst pshape \<Longrightarrow> 0 < snd pshape \<Longrightarrow>
   (if lower name \<in> set (target_animals cfg) \<and> conf b > dict_get (confidence_threshold (detection_cfg cfg)) 0.5
    then lower name \<in> detected_animals (main_box cfg ar names fshape pshape (b, env) s) \<and>
         last_alert_time (main_box cfg ar names fshape pshape (b, env) s) = snd (should_send_alert (detection_cfg cfg) (now env) (lower name) (last_alert_time s)) \<and>
         detection_count (main_box cfg ar names fshape pshape (b, env) s) = detection_count s + (if fst (should_send_alert (detection_cfg cfg) (now env) (lower name) (last_alert_time s)) then 1 else 0)
    else (main_box cfg ar names fshape pshape (b, env) s) = s) \<and>
   (conf b = dict_get (confidence_threshold (detection_cfg cfg)) 0.5 \<longrightarrow> (main_box cfg ar names fshape pshape (b, env) s) = s) \<and>
   (fst (main_frame cfg ar names fr s) = None \<longrightarrow>
      detected_animals (snd (main_frame cfg ar names fr s)) =
        {a. \<exists>be \<in> set (boxes fr). \<exists>n. names (cls (fst be)) = Some n \<and> a = lower n \<and>
              a \<in> set (target_animals cfg) \<and> conf (fst be) > dict_get (confidence_threshold (detection_cfg cfg)) 0.5})"
proof -
  assume nm: "names (cls b) = Some name" and p: "0 < fst pshape" "0 < snd pshape"
  obtain r where r: "rescale_box ar fshape pshape (xyxy b) = Inr r"
    using p by (cases "xyxy b") (auto simp: rescale_box_def Let_def)
  have yes: "lower name \<in> detected_animals (main_box cfg ar names fshape pshape (b, env) s) \<and> last_alert_time (main_box cfg ar names fshape pshape (b, env) s) = snd (should_send_alert (detection_cfg cfg) (now env) (lower name) (last_alert_time s)) \<and>
      detection_count (main_box cfg ar names fshape pshape (b, env) s) = detection_count s + (if fst (should_send_alert (detection_cfg cfg) (now env) (lower name) (last_alert_time s)) then 1 else 0)"
    if "lower name \<in> set (target_animals cfg)" "conf b > dict_get (confidence_threshold (detection_cfg cfg)) 0.5"
    using main_box_candidate [where names = names and b = b and name = name and cfg = cfg
            and fshape = fshape and pshape = pshape and r = r and env = env and s = s,
            OF nm that r]
    by (simp add: Let_def main_dispatch_keeps)
  have no: "(main_box cfg ar names fshape pshape (b, env) s) = s" if "\<not> (lower name \<in> set (target_animals cfg) \<and> conf b > dict_get (confidence_threshold (detection_cfg cfg)) 0.5)"
    using main_box_not_candidate [where names = names and b = b and name = name and cfg = cfg
            and fshape = fshape and pshape = pshape and env = env and s = s, OF nm that] .
  have eq: "(main_box cfg ar names fshape pshape (b, env) s) = s" if "conf b = dict_get (confidence_threshold (detection_cfg cfg)) 0.5"
    using no that by simp
  show ?thesis
    using yes no eq main_frame_detected [of cfg ar names fr s] by auto
qed

theorem candidate_filter_witness:
  "coco_names (cls dog_box) = Some ''dog'' \<and>
   main_box default_config ieee coco_names (720, 1280) (480, 640) (dog_box\<lparr>conf := 0.5\<rparr>, world)
     (initial_state empty_db) = initial_state empty_db \<and>
   detection_count (main_box default_config ieee coco_names (720, 1280) (480, 640)
     (dog_box\<lparr>conf := 0.51\<rparr>, world) (initial_state empty_db)) = 1 \<and>
   detected_animals (main_box default_config ieee coco_names (720, 1280) (480, 640)
     (dog_box\<lparr>conf := 0.51\<rparr>, world) (initial_state empty_db)) = {''dog''}"
  using candidate_filter [where names = coco_names and b = "dog_box\<lparr>conf := 0.5\<rparr>"
          and name = "''dog''" and pshape = "(480, 640)" and cfg = default_config and ar = ieee
          and fshape = "(720, 1280)" and env = world and s = "initial_state empty_db"]
        candidate_filter [where names = coco_names and b = "dog_box\<lparr>conf := 0.51\<rparr>"
          and name = "''dog''" and pshape = "(480, 640)" and cfg = default_config and ar = ieee
          and fshape = "(720, 1280)" and env = world and s = "initial_state empty_db"]
  by (simp add: sample_defs eval_defs)

text \<open>
  C7 (as amended). For a candidate box (x1, y1, x2, y2) in a processing frame of size
  (w, h) taken from an original of size (W, H), the loop draws the rectangle
  (int(x1 * (W / w)), int(y1 * (H / h)), int(x2 * (W / w)), int(y2 * (H / h))), where the
  quotient is the float division, the product is the tensor product and int truncates
  toward zero. Whenever the quotient is exact and the rounded product does not pass a
  whole number, the coordinate drawn is the floor or the ceiling of the scaled value,
  so less than one pixel from it and equal to it when it is whole. With 1280 by 720
  resized to 640 by 480 and these quotients and products exact, (100, 100, 200, 200)
  becomes (200, 150, 400, 300).
\<close>

theorem rescale_to_original:
  "0 < w \<Longrightarrow> 0 < h \<Longrightarrow>
   rescale_box ar (H, W) (h, w) (x1, y1, x2, y2) =
     Inr (py_int (tensor_mul ar x1 (truediv ar W w)), py_int (tensor_mul ar y1 (truediv ar H h)),
          py_int (tensor_mul ar x2 (truediv ar W w)), py_int (tensor_mul ar y2 (truediv ar H h))) \<and>
   (names (cls b) = Some name \<longrightarrow> lower name \<in> set (target_animals cfg) \<longrightarrow>
    conf b > dict_get (confidence_threshold (detection_cfg cfg)) 0.5 \<longrightarrow>
    xyxy b = (x1, y1, x2, y2) \<longrightarrow>
      rectangles (main_box cfg ar names (H, W) (h, w) (b, env) s) =
        rectangles s @
          [(py_int (tensor_mul ar x1 (truediv ar W w)), py_int (tensor_mul ar y1 (truediv ar H h)),
            py_int (tensor_mul ar x2 (truediv ar W w)), py_int (tensor_mul ar y2 (truediv ar H h)))]) \<and>
   (truediv ar num den = real num / real den \<longrightarrow>
    real_of_int \<lfloor>x * real num / real den\<rfloor> \<le> tensor_mul ar x (real num / real den) \<longrightarrow>
    tensor_mul ar x (real num / real den) \<le> real_of_int \<lceil>x * real num / real den\<rceil> \<longrightarrow>
      (py_int (tensor_mul ar x (truediv ar num den)) = \<lfloor>x * real num / real den\<rfloor> \<or>
       py_int (tensor_mul ar x (truediv ar num den)) = \<lceil>x * real num / real den\<rceil>) \<and>
      \<bar>real_of_int (py_int (tensor_mul ar x (truediv ar num den))) - x * real num / real den\<bar> < 1 \<and>
      (x * real num / real den = real_of_int n \<longrightarrow>
         py_int (tensor_mul ar x (truediv ar num den)) = n)) \<and>
   (truediv ar 1280 640 = 2 \<longrightarrow> truediv ar 720 480 = 3 / 2 \<longrightarrow>
    tensor_mul ar 100 2 = 200 \<longrightarrow> tensor_mul ar 100 (3 / 2) = 150 \<longrightarrow>
    tensor_mul ar 200 2 = 400 \<longrightarrow> tensor_mul ar 200 (3 / 2) = 300 \<longrightarrow>
      rescale_box ar (720, 1280) (480, 640) (100, 100, 200, 200) = Inr (200, 150, 400, 300))"
proof -
  assume p: "0 < w" "0 < h"
  let ?R = "(py_int (tensor_mul ar x1 (truediv ar W w)), py_int (tensor_mul ar y1 (truediv ar H h)),
          py_int (tensor_mul ar x2 (truediv ar W w)), py_int (tensor_mul ar y2 (truediv ar H h)))"
  let ?v = "x * real num / real den"
  let ?k = "py_int (tensor_mul ar x (truediv ar num den))"
  have r: "rescale_box ar (H, W) (h, w) (x1, y1, x2, y2) = Inr ?R"
    using p by (rule rescale_box_ok)
  have loop: "rectangles (main_box cfg ar names (H, W) (h, w) (b, env) s) = rectangles s @ [?R]"
    if "names (cls b) = Some name" "lower name \<in> set (target_animals cfg)"
       "conf b > dict_get (confidence_threshold (detection_cfg cfg)) 0.5"
       "xyxy b = (x1, y1, x2, y2)"
    using main_box_candidate [where names = names and b = b and name = name and cfg = cfg
            and ar = ar and fshape = "(H, W)" and pshape = "(h, w)" and env = env and s = s,
            OF that(1) that(2) that(3)] r that(4)
    by (simp add: Let_def main_dispatch_keeps)
  have near: "(?k = \<lfloor>?v\<rfloor> \<or> ?k = \<lceil>?v\<rceil>) \<and> \<bar>real_of_int ?k - ?v\<bar> < 1 \<and>
      (?v = real_of_int n \<longrightarrow> ?k = n)"
    if q: "truediv ar num den = real num / real den"
      and lo: "real_of_int \<lfloor>?v\<rfloor> \<le> tensor_mul ar x (real num / real den)"
      and hi: "tensor_mul ar x (real num / real den) \<le> real_of_int \<lceil>?v\<rceil>"
  proof -
    have k: "?k = \<lfloor>?v\<rfloor> \<or> ?k = \<lceil>?v\<rceil>"
      using py_int_between [OF lo hi] q by simp
    show ?thesis
      using k floor_or_ceiling_near(1) [OF k] floor_or_ceiling_near(2) [OF k, of n] by blast
  qed
  have ex: "rescale_box ar (720, 1280) (480, 640) (100, 100, 200, 200) = Inr (200, 150, 400, 300)"
    if "truediv ar 1280 640 = 2" "truediv ar 720 480 = 3 / 2"
       "tensor_mul ar 100 2 = 200" "tensor_mul ar 100 (3 / 2) = 150"
       "tensor_mul ar 200 2 = 400" "tensor_mul ar 200 (3 / 2) = 300"
  proof -
    have "rescale_box ar (720, 1280) (480, 640) (100, 100, 200, 200) =
        Inr (py_int (tensor_mul ar 100 (truediv ar 1280 640)),
             py_int (tensor_mul ar 100 (truediv ar 720 480)),
             py_int (tensor_mul ar 200 (truediv ar 1280 640)),
             py_int (tensor_mul ar 200 (truediv ar 720 480)))"
      by (simp add: rescale_box_def Let_def)
    also have "\<dots> = Inr (py_int 200, py_int 150, py_int 400, py_int 300)"
      by (simp only: that)
    also have "\<dots> = Inr (200, 150, 400, 300)"
      by (simp add: py_int_def)
    finally show ?thesis .
  qed
  show ?thesis
    using r loop near ex by blast
qed

theorem rescale_to_original_witness:
  "(0::nat) < 640 \<and> (0::nat) < 480 \<and>
   truediv ieee 1280 640 = 2 \<and> truediv ieee 720 480 = 3 / 2 \<and>
   tensor_mul ieee 100 2 = 200 \<and> tensor_mul ieee 100 (3 / 2) = 150 \<and>
   tensor_mul ieee 200 2 = 400 \<and> tensor_mul ieee 200 (3 / 2) = 300 \<and>
   rescale_box ieee (720, 1280) (480, 640) (100, 100, 200, 200) = Inr (200, 150, 400, 300) \<and>
   tensor_mul ieee (8738133 / 65536) (real (720::nat) / real (480::nat)) = 200 \<and>
   \<lfloor>(8738133 / 65536 :: real) * real (720::nat) / real (480::nat)\<rfloor> = 199 \<and>
   rescale_box ieee (720, 1280) (480, 640) (100, 8738133 / 65536, 200, 200) =
     Inr (200, 200, 400, 300) \<and>
   rectangles (main_box default_config ieee coco_names (720, 1280) (480, 640) (dog_box, world)
     (initial_state empty_db)) = [(200, 150, 400, 300)]"
  using rescale_to_original [where w = 640 and h = 480 and H = 720 and W = 1280 and ar = ieee
          and ?x1.0 = 100 and ?y1.0 = "8738133 / 65536" and ?x2.0 = 200 and ?y2.0 = 200
          and x = "8738133 / 65536" and num = 720 and den = 480 and n = 0
          and names = coco_names and b = dog_box and name = "''dog''" and cfg = default_config
          and env = world and s = "initial_state empty_db"]
        rescale_to_original [where w = 640 and h = 480 and H = 720 and W = 1280 and ar = ieee
          and ?x1.0 = 100 and ?y1.0 = 100 and ?x2.0 = 200 and ?y2.0 = 200
          and x = 100 and num = 720 and den = 480 and n = 150
          and names = coco_names and b = dog_box and name = "''dog''" and cfg = default_config
          and env = world and s = "initial_state empty_db"]
  by (simp add: sample_defs eval_defs)

text \<open>
  The claim as stated fails for a coordinate whose scaled value is not whole: 100.25
  scales to 200.5, exactly, and the loop draws 200.
\<close>

theorem rescale_to_original_counterexample:
  "rectangles (main default_config ieee coco_names fractional_frames empty_db) =
     [(200, 150, 400, 300)] \<and>
   (100.25::real) * 1280 / 640 \<noteq> real_of_int 200"
  by (simp add: sample_defs eval_defs)

end
